theory Spec2Isabelle
  imports Main
begin

section \<open>Badge recipes: the embedding of badgify/recipe.py\<close>

text \<open>
  The module is one class, \<^verbatim>\<open>BaseRecipe\<close>, whose methods talk to a relational store
  through an object-relational mapper and write to a logger. The embedding makes both
  explicit: a \<open>world\<close> holds the databases (one per alias), the log written so far and
  the signals sent; every method takes the recipe and the world and returns its result
  together with the world it leaves. A Python exception is the \<open>Inl\<close> of a sum; the
  world returned beside it is the world at the moment of the raise.
\<close>

subsection \<open>Exceptions and log records\<close>

datatype error = TypeError | NameError | AttributeError | NotImplementedError
  | IntegrityError | DoesNotExist | ValueError

datatype level = DEBUG | ERROR

text \<open>
  A log record keeps the level, the format string and the arguments apart, as the
  logger receives them. The format strings are the source's, without the check and
  cross glyphs and the arrow that open them there.
\<close>

datatype arg = AStr string | AInt int | ANone

type_synonym log_record = "level \<times> string \<times> arg list"

subsection \<open>The data model\<close>

text \<open>
  Modelled from the spec: the model classes \<^verbatim>\<open>Badge\<close> and \<^verbatim>\<open>Award\<close> live in
  \<^verbatim>\<open>models.py\<close>, which is not among the sources. The spec gives a badge a unique
  slug, a display name, an optional description, an image reference and a denormalized
  count of awarded users; an award links one user to one badge and is unique for the
  pair; a user is known by its identifier only.
\<close>

record Badge =
  badge_name :: string
  badge_slug :: string
  badge_description :: "string option"
  badge_image :: string
  users_count :: int

text \<open>An \<^verbatim>\<open>Award\<close> object in memory, as \<^verbatim>\<open>Award(user=user, badge=self.badge)\<close> builds it.\<close>

record Award =
  award_user :: int
  award_badge :: "Badge option"

text \<open>
  One database: the badge table keyed by the unique slug, the award table as rows of
  user identifier and badge slug, and the identifiers of the user table.
\<close>

record database =
  badges :: "string \<rightharpoonup> Badge"
  awards :: "(int \<times> string) list"
  users :: "int list"

text \<open>
  The world a recipe runs in: the database of every alias, the log, the \<^verbatim>\<open>post_save\<close>
  signals sent so far, and the setting \<^verbatim>\<open>SKIP_AWARD_POST_SAVE_SIGNAL\<close> of
  \<^verbatim>\<open>settings.py\<close>, whose value the module does not fix.
\<close>

record world =
  dbs :: "string \<Rightarrow> database"
  logged :: "log_record list"
  post_save_sent :: "Award list"
  SKIP_AWARD_POST_SAVE_SIGNAL :: bool

text \<open>
  The class attributes and properties of a recipe. \<open>name\<close>, \<open>slug\<close> and
  \<open>description\<close> are \<^verbatim>\<open>None\<close> in the base class. The property \<^verbatim>\<open>image\<close> raises
  \<^verbatim>\<open>NotImplementedError\<close> until a subclass overrides it: \<open>None\<close> here. The property
  \<^verbatim>\<open>user_ids\<close> returns \<^verbatim>\<open>None\<close> in the base class; a subclass returns a query set
  of user identifiers, which is a query that can be run against any database.
\<close>

record recipe =
  name :: "string option"
  slug :: "string option"
  description :: "string option"
  db_read :: string
  max_awards_per_create :: int
  image_property :: "string option"
  user_ids :: "(database \<Rightarrow> int list) option"

subsection \<open>The mapper and the logger\<close>

definition DEFAULT_DB_ALIAS :: string where
  "DEFAULT_DB_ALIAS = ''default''"

text \<open>
  A query with no \<^verbatim>\<open>using(...)\<close> runs on the default database (no database router
  is configured by this module), and so does every write.
\<close>

definition default_db :: "world \<Rightarrow> database" where
  "default_db w = dbs w DEFAULT_DB_ALIAS"

definition write_default :: "database \<Rightarrow> world \<Rightarrow> world" where
  "write_default db w = w\<lparr>dbs := (dbs w)(DEFAULT_DB_ALIAS := db)\<rparr>"

definition logger_debug :: "string \<Rightarrow> arg list \<Rightarrow> world \<Rightarrow> world" where
  "logger_debug fmt args w = w\<lparr>logged := logged w @ [(DEBUG, fmt, args)]\<rparr>"

definition logger_error :: "string \<Rightarrow> arg list \<Rightarrow> world \<Rightarrow> world" where
  "logger_error fmt args w = w\<lparr>logged := logged w @ [(ERROR, fmt, args)]\<rparr>"

definition slug_arg :: "recipe \<Rightarrow> arg" where
  "slug_arg r = (case slug r of None \<Rightarrow> ANone | Some s \<Rightarrow> AStr s)"

text \<open>
  \<^verbatim>\<open>Badge.objects.get(slug=...)\<close>: the row with that slug, or \<^verbatim>\<open>Badge.DoesNotExist\<close>.
  The slug column is never null, so a lookup of \<^verbatim>\<open>None\<close> finds no row.
\<close>

definition Badge_objects_get :: "string option \<Rightarrow> database \<Rightarrow> error + Badge" where
  "Badge_objects_get sl db =
     (case sl of
        None \<Rightarrow> Inl DoesNotExist
      | Some s \<Rightarrow> (case badges db s of None \<Rightarrow> Inl DoesNotExist | Some b \<Rightarrow> Inr b))"

text \<open>
  Modelled from the spec: \<^verbatim>\<open>Badge.objects.create(**kwargs)\<close> inserts a row of the
  \<^verbatim>\<open>Badge\<close> model of \<^verbatim>\<open>models.py\<close>, which is not among the sources. The keyword
  arguments are a dictionary from field names to values, where a value may be
  \<^verbatim>\<open>None\<close>. The name and the image are required, so a missing one violates the
  integrity of the row, and so does a slug that another badge already has. The spec does
  not say which slug a badge gets when none is passed: the empty string of a blank
  column is taken, and no theorem below depends on it. A new badge has no awarded user.
\<close>

definition Badge_objects_create ::
  "(string \<rightharpoonup> string option) \<Rightarrow> database \<Rightarrow> error + Badge \<times> database" where
  "Badge_objects_create kwargs db =
     (case kwargs ''name'' of
        Some (Some nm) \<Rightarrow>
          (case kwargs ''image'' of
             Some (Some img) \<Rightarrow>
               (let sl = (case kwargs ''slug'' of Some (Some s) \<Rightarrow> s | _ \<Rightarrow> '''');
                    descr = (case kwargs ''description'' of Some d \<Rightarrow> d | None \<Rightarrow> None);
                    b = \<lparr>badge_name = nm, badge_slug = sl, badge_description = descr,
                         badge_image = img, users_count = 0\<rparr>
                in if badges db sl \<noteq> None then Inl IntegrityError
                   else Inr (b, db\<lparr>badges := (badges db)(sl \<mapsto> b)\<rparr>))
           | _ \<Rightarrow> Inl IntegrityError)
      | _ \<Rightarrow> Inl IntegrityError)"

text \<open>
  Modelled from the spec: \<^verbatim>\<open>badge.save()\<close> of the \<^verbatim>\<open>Badge\<close> model of \<^verbatim>\<open>models.py\<close>
  persists the badge: it writes the row of the badge back to the default database.
\<close>

definition Badge_save :: "Badge \<Rightarrow> world \<Rightarrow> world" where
  "Badge_save b w =
     write_default ((default_db w)\<lparr>badges := (badges (default_db w))(badge_slug b \<mapsto> b)\<rparr>) w"

text \<open>
  Modelled from the spec: \<^verbatim>\<open>badge.users\<close> is a relation of the \<^verbatim>\<open>Badge\<close> model of
  \<^verbatim>\<open>models.py\<close>. It is the awarded users of the badge: the identifiers of the users
  that hold an award of the badge, read from the database the badge was loaded from.
\<close>

definition Badge_users :: "database \<Rightarrow> Badge \<Rightarrow> int list" where
  "Badge_users db b = map fst (filter (\<lambda>row. snd row = badge_slug b) (awards db))"

text \<open>
  Modelled from the spec: \<^verbatim>\<open>Award.objects.bulk_create(objects, ...)\<close> inserts the rows
  of the \<^verbatim>\<open>Award\<close> model of \<^verbatim>\<open>models.py\<close> in one batch. A row is the user and the
  badge of the object; an object without badge, a pair that occurs twice in the batch
  and a pair the table already holds violate the integrity of the table, and then no row
  of the batch is kept.
\<close>

fun award_rows :: "Award list \<Rightarrow> (int \<times> string) list option" where
  "award_rows [] = Some []"
| "award_rows (a # as) =
     (case award_badge a of
        None \<Rightarrow> None
      | Some b \<Rightarrow>
          (case award_rows as of
             None \<Rightarrow> None
           | Some rows \<Rightarrow> Some ((award_user a, badge_slug b) # rows)))"

definition Award_objects_bulk_create :: "Award list \<Rightarrow> database \<Rightarrow> error + database" where
  "Award_objects_bulk_create objs db =
     (case award_rows objs of
        None \<Rightarrow> Inl IntegrityError
      | Some rows \<Rightarrow>
          if distinct rows \<and> set rows \<inter> set (awards db) = {}
          then Inr (db\<lparr>awards := awards db @ rows\<rparr>)
          else Inl IntegrityError)"

text \<open>
  Modelled from the spec: \<^verbatim>\<open>chunks\<close> comes from \<^verbatim>\<open>utils.py\<close>, which is not among
  the sources. The spec has it partition the identifiers into consecutive chunks of the
  fixed size, the last one possibly shorter. The spec says nothing about a size that is
  not positive: the model yields no chunk there, and every theorem below that runs the
  loop takes a positive size.
\<close>

function chunks :: "'a list \<Rightarrow> int \<Rightarrow> 'a list list" where
  "chunks l n =
     (if n \<le> 0 \<or> l = [] then []
      else take (nat n) l # chunks (drop (nat n) l) n)"
  by pat_completeness auto
termination
  by (relation "measure (\<lambda>(l, n). length l)") auto

declare chunks.simps [simp del]

subsection \<open>The recipe\<close>

text \<open>
  The property \<^verbatim>\<open>badge\<close>: the badge of the recipe's slug in the default database,
  \<^verbatim>\<open>None\<close> when the lookup raises \<^verbatim>\<open>DoesNotExist\<close> (the only exception the lookup has).
\<close>

definition badge :: "recipe \<Rightarrow> world \<Rightarrow> Badge option" where
  "badge r w =
     (case Badge_objects_get (slug r) (default_db w) of
        Inl e \<Rightarrow> None
      | Inr obj \<Rightarrow> Some obj)"

definition getattr :: "recipe \<Rightarrow> string \<Rightarrow> string option" where
  "getattr r field =
     (if field = ''slug'' then slug r
      else if field = ''description'' then description r
      else None)"

text \<open>
  The keyword arguments \<^verbatim>\<open>create_badge\<close> builds: the name and the image always, and
  each of the optional fields whose attribute is not \<^verbatim>\<open>None\<close>.
\<close>

definition badge_kwargs :: "recipe \<Rightarrow> string \<Rightarrow> (string \<rightharpoonup> string option)" where
  "badge_kwargs r img =
     fold (\<lambda>field kwargs.
             (case getattr r field of
                None \<Rightarrow> kwargs
              | Some v \<Rightarrow> kwargs(field \<mapsto> Some v)))
          [''slug'', ''description'']
          [''name'' \<mapsto> name r, ''image'' \<mapsto> Some img]"

text \<open>
  \<^verbatim>\<open>create_badge\<close> fetches the badge and, when there is none, inserts it. The fetch
  and the insert are two statements of the store; \<open>concurrent\<close> is what other processes
  write to the default database between the two (\<open>id\<close> when the recipe runs alone).
  Reading \<^verbatim>\<open>self.image\<close> comes before the insert and may raise. The result is the
  triple \<^verbatim>\<open>(badge, created, failed)\<close>.
\<close>

definition create_badge ::
  "(database \<Rightarrow> database) \<Rightarrow> recipe \<Rightarrow> world \<Rightarrow> (error + Badge option \<times> bool \<times> bool) \<times> world" where
  "create_badge concurrent r w =
     (case badge r w of
        Some b \<Rightarrow>
          (Inr (Some b, False, False),
           logger_debug ''Badge %s: already created'' [AStr (badge_slug b)] w)
      | None \<Rightarrow>
          (case image_property r of
             None \<Rightarrow> (Inl NotImplementedError, w)
           | Some img \<Rightarrow>
               (let db = concurrent (default_db w)
                in case Badge_objects_create (badge_kwargs r img) db of
                     Inr (b, db') \<Rightarrow>
                       (Inr (Some b, True, False),
                        logger_debug ''Badge %s: created'' [AStr (badge_slug b)]
                          (write_default db' w))
                   | Inl e \<Rightarrow>
                       if e = IntegrityError
                       then (Inr (None, False, True),
                             logger_debug ''Badge %s: IntegrityError'' [slug_arg r]
                               (write_default db w))
                       else (Inl e, write_default db w))))"

text \<open>
  \<^verbatim>\<open>if not self.user_ids\<close>: \<^verbatim>\<open>None\<close> is false, and a query set is false when it
  yields no row; without \<^verbatim>\<open>using(...)\<close> it is run on the default database.
\<close>

definition user_ids_truth :: "recipe \<Rightarrow> world \<Rightarrow> bool" where
  "user_ids_truth r w =
     (case user_ids r of None \<Rightarrow> False | Some q \<Rightarrow> q (default_db w) \<noteq> [])"

definition can_perform_awarding :: "recipe \<Rightarrow> world \<Rightarrow> bool \<times> world" where
  "can_perform_awarding r w =
     (if \<not> user_ids_truth r w
      then (False,
            logger_debug ''Badge %s: no users to check (empty user_ids property)''
              [slug_arg r] w)
      else if badge r w = None
      then (False,
            logger_debug
              ''Badge %s: does not exist in the database (run badgify_sync badges)''
              [slug_arg r] w)
      else (True, w))"

text \<open>
  \<^verbatim>\<open>update_badge_users_count\<close> returns a pair whose first component is the badge, or
  the slug attribute of the recipe when there is no badge.
\<close>

datatype badge_or_slug = BadgeObject Badge | SlugValue "string option"

definition update_badge_users_count :: "recipe \<Rightarrow> world \<Rightarrow> (badge_or_slug \<times> bool) \<times> world" where
  "update_badge_users_count r w0 =
     (let w = logger_debug ''Badge %s: syncing users count...'' [slug_arg r] w0
      in case badge r w of
           None \<Rightarrow>
             ((SlugValue (slug r), False),
              logger_debug
                ''Badge %s: does not exist in the database (run badgify_sync badges)''
                [slug_arg r] w)
         | Some b \<Rightarrow>
             (let old_value = users_count b;
                  new_value = int (length (Badge_users (default_db w) b))
              in if old_value \<noteq> new_value
                 then (let b' = b\<lparr>users_count := new_value\<rparr>;
                           w' = Badge_save b' w
                       in ((BadgeObject b', True),
                           logger_debug ''Badge %s: updated users count (from %d to %d)''
                             [slug_arg r, AInt old_value, AInt new_value] w'))
                 else ((BadgeObject b, False),
                       logger_debug ''Badge %s: users count up-to-date (%d)''
                         [slug_arg r, AInt new_value] w)))"

text \<open>
  \<^verbatim>\<open>self.badge.users.values_list('id', flat=True)\<close> has no \<^verbatim>\<open>using(...)\<close>: it reads
  the default database. With no badge, \<^verbatim>\<open>self.badge.users\<close> is an attribute of
  \<^verbatim>\<open>None\<close>. The log record names \<^verbatim>\<open>self.db_read\<close>.
\<close>

definition get_already_awarded_user_ids :: "recipe \<Rightarrow> world \<Rightarrow> (error + int list) \<times> world" where
  "get_already_awarded_user_ids r w =
     (case badge r w of
        None \<Rightarrow> (Inl AttributeError, w)
      | Some b \<Rightarrow>
          (let already_awarded_ids = Badge_users (default_db w) b;
               already_awarded_ids_count = int (length already_awarded_ids)
           in (Inr already_awarded_ids,
               logger_debug ''Badge %s: %d users already awarded (fetched from db '%s')''
                 [slug_arg r, AInt already_awarded_ids_count, AStr (db_read r)] w)))"

text \<open>\<^verbatim>\<open>self.user_ids.using(self.db_read)\<close>: the query, run on the database of that alias.\<close>

definition get_current_user_ids :: "recipe \<Rightarrow> world \<Rightarrow> (error + int list) \<times> world" where
  "get_current_user_ids r w =
     (case user_ids r of
        None \<Rightarrow> (Inl AttributeError, w)
      | Some q \<Rightarrow>
          (let current_ids = q (dbs w (db_read r));
               current_ids_count = int (length current_ids)
           in (Inr current_ids,
               logger_debug ''Badge %s: %d users to check (fetched from db '%s')''
                 [slug_arg r, AInt current_ids_count, AStr (db_read r)] w)))"

text \<open>
  \<^verbatim>\<open>list(set(current_ids) - set(already_awarded_ids))\<close>: each identifier of the first
  that is not in the second, once. Python leaves the order of a set open; the model
  takes the order of the last occurrences in the first list.
\<close>

definition list_set_difference :: "int list \<Rightarrow> int list \<Rightarrow> int list" where
  "list_set_difference current_ids already_awarded_ids =
     filter (\<lambda>u. u \<notin> set already_awarded_ids) (remdups current_ids)"

definition get_unawarded_user_ids :: "recipe \<Rightarrow> world \<Rightarrow> (error + int list \<times> int) \<times> world" where
  "get_unawarded_user_ids r w =
     (case get_already_awarded_user_ids r w of
        (Inl e, w1) \<Rightarrow> (Inl e, w1)
      | (Inr already_awarded_ids, w1) \<Rightarrow>
          (case get_current_user_ids r w1 of
             (Inl e, w2) \<Rightarrow> (Inl e, w2)
           | (Inr current_ids, w2) \<Rightarrow>
               (let unawarded_ids = list_set_difference current_ids already_awarded_ids;
                    unawarded_ids_count = int (length unawarded_ids)
                in (Inr (unawarded_ids, unawarded_ids_count),
                    logger_debug ''Badge %s: %d users need to be awarded''
                      [slug_arg r, AInt unawarded_ids_count] w2))))"

text \<open>
  The body of \<^verbatim>\<open>_bulk_create_awards\<close> reads the name \<^verbatim>\<open>objects\<close>, which is neither a
  parameter nor a local; \<open>objects\<close> is what the lookup of the name finds, \<open>None\<close> when
  the name is not bound.
\<close>

definition bulk_create_awards_body ::
  "recipe \<Rightarrow> Award list option \<Rightarrow> world \<Rightarrow> (error + unit) \<times> world" where
  "bulk_create_awards_body r objects w =
     (case objects of
        None \<Rightarrow> (Inl NameError, w)
      | Some objs \<Rightarrow>
          (let count = int (length objs)
           in case Award_objects_bulk_create objs (default_db w) of
                Inr db' \<Rightarrow>
                  (let w1 = write_default db' w
                   in if \<not> SKIP_AWARD_POST_SAVE_SIGNAL w1
                      then (Inr (), w1\<lparr>post_save_sent := post_save_sent w1 @ objs\<rparr>)
                      else (Inr (), w1))
              | Inl e \<Rightarrow>
                  if e = IntegrityError
                  then (Inr (),
                        logger_error ''Badge %s: IntegrityError for %d awards''
                          [slug_arg r, AInt count] w)
                  else (Inl e, w)))"

text \<open>
  The module binds no name \<^verbatim>\<open>objects\<close>: its globals are the imports, \<^verbatim>\<open>logger\<close> and
  \<^verbatim>\<open>BaseRecipe\<close>, and Python has no such builtin.
\<close>

definition module_objects :: "Award list option" where
  "module_objects = None"

text \<open>
  A call of \<^verbatim>\<open>self._bulk_create_awards\<close> with the positional arguments \<open>args\<close>. The
  method is declared with \<^verbatim>\<open>self\<close> alone, so any argument is one too many and the call
  raises \<^verbatim>\<open>TypeError\<close> before the body runs.
\<close>

definition bulk_create_awards :: "recipe \<Rightarrow> Award list list \<Rightarrow> world \<Rightarrow> (error + unit) \<times> world" where
  "bulk_create_awards r args w =
     (if args \<noteq> [] then (Inl TypeError, w)
      else bulk_create_awards_body r module_objects w)"

text \<open>
  \<^verbatim>\<open>Award(user=user, badge=badge)\<close>. The mapper remembers for every object the alias
  of the database it was loaded from, and a new object may relate two objects only when
  the database router allows the relation. With no router configured that is when both
  come from the same alias; otherwise the assignment raises \<^verbatim>\<open>ValueError\<close>. The badge
  of the property \<^verbatim>\<open>badge\<close> is loaded from the default alias; \<open>user_db\<close> is the
  alias the user was loaded from. Without a badge there is no second object to relate.
\<close>

definition Award_init :: "string \<Rightarrow> int \<Rightarrow> Badge option \<Rightarrow> error + Award" where
  "Award_init user_db u b =
     (case b of
        None \<Rightarrow> Inr \<lparr>award_user = u, award_badge = None\<rparr>
      | Some obj \<Rightarrow>
          if user_db = DEFAULT_DB_ALIAS then Inr \<lparr>award_user = u, award_badge = Some obj\<rparr>
          else Inl ValueError)"

text \<open>
  The list comprehension of \<^verbatim>\<open>save_award_objects\<close>: one \<^verbatim>\<open>Award\<close> for each user
  found, in order; the first exception ends it.
\<close>

fun build_awards :: "string \<Rightarrow> Badge option \<Rightarrow> int list \<Rightarrow> error + Award list" where
  "build_awards user_db b [] = Inr []"
| "build_awards user_db b (u # us) =
     (case Award_init user_db u b of
        Inl e \<Rightarrow> Inl e
      | Inr a \<Rightarrow>
          (case build_awards user_db b us of
             Inl e \<Rightarrow> Inl e
           | Inr as \<Rightarrow> Inr (a # as)))"

text \<open>
  The loop of \<^verbatim>\<open>save_award_objects\<close> over the chunks, with the running \<^verbatim>\<open>done_ids\<close>.
  The users of a chunk are loaded from the alias \<^verbatim>\<open>db_read\<close>, the award objects are
  built, and only then \<^verbatim>\<open>_bulk_create_awards\<close> is called with the list as its one
  argument. An exception ends the loop.
\<close>

fun save_chunks :: "recipe \<Rightarrow> int \<Rightarrow> int \<Rightarrow> int list list \<Rightarrow> world \<Rightarrow> (error + unit) \<times> world" where
  "save_chunks r unawarded_ids_count done_ids [] w = (Inr (), w)"
| "save_chunks r unawarded_ids_count done_ids (chunk # rest) w =
     (let done_ids = done_ids + max_awards_per_create r;
          actual_count = (if done_ids \<le> unawarded_ids_count then done_ids
                          else unawarded_ids_count);
          w1 = logger_debug ''Badge %s: creating awards (%d / %d users) -- (db read: %s)''
                 [slug_arg r, AInt actual_count, AInt unawarded_ids_count, AStr (db_read r)] w;
          found = filter (\<lambda>u. u \<in> set chunk) (users (dbs w1 (db_read r)))
      in case build_awards (db_read r) (badge r w1) found of
           Inl e \<Rightarrow> (Inl e, w1)
         | Inr objs \<Rightarrow>
             (case bulk_create_awards r [objs] w1 of
                (Inl e, w2) \<Rightarrow> (Inl e, w2)
              | (Inr u, w2) \<Rightarrow> save_chunks r unawarded_ids_count done_ids rest w2))"

definition save_award_objects :: "recipe \<Rightarrow> world \<Rightarrow> (error + unit) \<times> world" where
  "save_award_objects r w =
     (case get_unawarded_user_ids r w of
        (Inl e, w1) \<Rightarrow> (Inl e, w1)
      | (Inr (unawarded_ids, unawarded_ids_count), w1) \<Rightarrow>
          if unawarded_ids = [] then (Inr (), w1)
          else save_chunks r unawarded_ids_count 0
                 (chunks unawarded_ids (max_awards_per_create r)) w1)"

definition create_awards :: "recipe \<Rightarrow> world \<Rightarrow> (error + unit) \<times> world" where
  "create_awards r w =
     (case can_perform_awarding r w of
        (True, w1) \<Rightarrow> save_award_objects r w1
      | (False, w1) \<Rightarrow> (Inr (), w1))"

subsection \<open>A recipe and a store to run it on\<close>

text \<open>
  A recipe for a badge named Pioneer that every user of the queried database is
  eligible for. It reads from the alias \<open>replica\<close> and creates two awards at once.
\<close>

definition pioneer :: Badge where
  "pioneer = \<lparr>badge_name = ''Pioneer'', badge_slug = ''pioneer'', badge_description = None,
              badge_image = ''pioneer.png'', users_count = 0\<rparr>"

definition pioneer_recipe :: recipe where
  "pioneer_recipe =
     \<lparr>name = Some ''Pioneer'', slug = Some ''pioneer'', description = None,
      db_read = ''replica'', max_awards_per_create = 2,
      image_property = Some ''pioneer.png'', user_ids = Some users\<rparr>"

text \<open>The same recipe, reading from the default alias.\<close>

definition primary_recipe :: recipe where
  "primary_recipe = pioneer_recipe\<lparr>db_read := DEFAULT_DB_ALIAS\<rparr>"

text \<open>
  The default database holds the badge, four users and the award of user 1. The replica
  lags behind: it has the badge and the users, not yet the award.
\<close>

definition primary_db :: database where
  "primary_db = \<lparr>badges = [''pioneer'' \<mapsto> pioneer], awards = [(1, ''pioneer'')],
                 users = [1, 2, 3, 4]\<rparr>"

definition replica_db :: database where
  "replica_db = \<lparr>badges = [''pioneer'' \<mapsto> pioneer], awards = [], users = [1, 2, 3, 4]\<rparr>"

definition replicated_world :: world where
  "replicated_world =
     \<lparr>dbs = (\<lambda>alias. if alias = ''replica'' then replica_db else primary_db),
      logged = [], post_save_sent = [], SKIP_AWARD_POST_SAVE_SIGNAL = False\<rparr>"

text \<open>The same store once the users count of the badge has been synchronised.\<close>

definition synced_world :: world where
  "synced_world = snd (update_badge_users_count pioneer_recipe replicated_world)"

text \<open>A store whose badge table is still empty, and a rival process that inserts the badge.\<close>

definition fresh_db :: database where
  "fresh_db = \<lparr>badges = Map.empty, awards = [], users = [1, 2, 3, 4]\<rparr>"

definition fresh_world :: world where
  "fresh_world = \<lparr>dbs = (\<lambda>alias. fresh_db), logged = [], post_save_sent = [],
                  SKIP_AWARD_POST_SAVE_SIGNAL = False\<rparr>"

definition rival :: "database \<Rightarrow> database" where
  "rival db = db\<lparr>badges := (badges db)(''pioneer'' \<mapsto> pioneer)\<rparr>"

text \<open>
  The base class as it is: no attribute set, no property overridden. Its chunk size is the
  setting \<^verbatim>\<open>MAX_AWARDS_PER_CREATE\<close>, whose value the module does not show; 500 stands
  for it here.
\<close>

definition base_recipe :: recipe where
  "base_recipe =
     \<lparr>name = None, slug = None, description = None, db_read = DEFAULT_DB_ALIAS,
      max_awards_per_create = 500, image_property = None, user_ids = None\<rparr>"

section \<open>Properties\<close>

subsection \<open>Logging leaves the store alone\<close>

lemma dbs_logger_debug [simp]: "dbs (logger_debug fmt args w) = dbs w"
  by (simp add: logger_debug_def)

lemma post_save_sent_logger_debug [simp]:
  "post_save_sent (logger_debug fmt args w) = post_save_sent w"
  by (simp add: logger_debug_def)

lemma logged_logger_debug [simp]:
  "logged (logger_debug fmt args w) = logged w @ [(DEBUG, fmt, args)]"
  by (simp add: logger_debug_def)

lemma default_db_logger_debug [simp]: "default_db (logger_debug fmt args w) = default_db w"
  by (simp add: default_db_def)

lemma badge_logger_debug [simp]: "badge r (logger_debug fmt args w) = badge r w"
  by (simp add: badge_def)

lemma badge_eq:
  "badge r w = (case slug r of None \<Rightarrow> None | Some s \<Rightarrow> badges (default_db w) s)"
  by (simp add: badge_def Badge_objects_get_def split: option.splits)

text \<open>The definitions a run on a concrete store unfolds.\<close>

lemmas run_defs =
  DEFAULT_DB_ALIAS_def default_db_def write_default_def logger_debug_def logger_error_def
  slug_arg_def Badge_objects_get_def Badge_save_def Badge_users_def
  Award_objects_bulk_create_def badge_def getattr_def badge_kwargs_def
  Badge_objects_create_def create_badge_def user_ids_truth_def can_perform_awarding_def
  update_badge_users_count_def get_already_awarded_user_ids_def get_current_user_ids_def
  list_set_difference_def get_unawarded_user_ids_def bulk_create_awards_body_def
  module_objects_def bulk_create_awards_def Award_init_def save_award_objects_def
  create_awards_def Let_def

lemmas store_defs =
  pioneer_def pioneer_recipe_def primary_recipe_def primary_db_def replica_db_def replicated_world_def
  fresh_db_def fresh_world_def rival_def base_recipe_def synced_world_def

subsection \<open>The difference of eligible and awarded users\<close>

lemma set_list_set_difference: "set (list_set_difference B A) = set B - set A"
  by (auto simp: list_set_difference_def)

lemma distinct_list_set_difference: "distinct (list_set_difference B A)"
  by (simp add: list_set_difference_def)

lemma get_unawarded_user_ids_frame:
  "dbs (snd (get_unawarded_user_ids r w)) = dbs w \<and>
   post_save_sent (snd (get_unawarded_user_ids r w)) = post_save_sent w"
  by (simp add: get_unawarded_user_ids_def get_already_awarded_user_ids_def
      get_current_user_ids_def Let_def split: option.splits)

text \<open>
  Claim C1. Whatever list A of already-awarded identifiers and list B of eligible
  identifiers the two fetches return, \<^verbatim>\<open>get_unawarded_user_ids\<close> returns a list that
  holds exactly the identifiers of B that are not in A, each once, together with a count
  that is the length of that list.
\<close>

theorem get_unawarded_user_ids_difference:
  assumes "get_already_awarded_user_ids r w = (Inr A, w1)"
    and "get_current_user_ids r w1 = (Inr B, w2)"
  shows "\<exists>ids. fst (get_unawarded_user_ids r w) = Inr (ids, int (length ids))
           \<and> set ids = set B - set A \<and> distinct ids"
  using assms
  by (simp add: get_unawarded_user_ids_def Let_def set_list_set_difference
      distinct_list_set_difference)

theorem get_unawarded_user_ids_difference_witness:
  "get_already_awarded_user_ids pioneer_recipe replicated_world =
     (Inr [1], snd (get_already_awarded_user_ids pioneer_recipe replicated_world))
   \<and> get_current_user_ids pioneer_recipe
       (snd (get_already_awarded_user_ids pioneer_recipe replicated_world)) =
     (Inr [1, 2, 3, 4],
      snd (get_current_user_ids pioneer_recipe
        (snd (get_already_awarded_user_ids pioneer_recipe replicated_world))))
   \<and> (\<exists>ids. fst (get_unawarded_user_ids pioneer_recipe replicated_world)
               = Inr (ids, int (length ids))
           \<and> set ids = {2, 3, 4} \<and> distinct ids)"
proof -
  have a: "get_already_awarded_user_ids pioneer_recipe replicated_world =
     (Inr [1], snd (get_already_awarded_user_ids pioneer_recipe replicated_world))"
    by (simp add: run_defs store_defs)
  have b: "get_current_user_ids pioneer_recipe
       (snd (get_already_awarded_user_ids pioneer_recipe replicated_world)) =
     (Inr [1, 2, 3, 4],
      snd (get_current_user_ids pioneer_recipe
        (snd (get_already_awarded_user_ids pioneer_recipe replicated_world))))"
    by (simp add: run_defs store_defs)
  have c: "set [1, 2, 3, 4] - set [1] = {2, 3, 4 :: int}"
    by auto
  show ?thesis
    using get_unawarded_user_ids_difference [OF a b] a b unfolding c by blast
qed

subsection \<open>Which database the two fetches read\<close>

lemma get_current_user_ids_reads_db_read:
  "user_ids r = Some q \<Longrightarrow> fst (get_current_user_ids r w) = Inr (q (dbs w (db_read r)))"
  by (simp add: get_current_user_ids_def Let_def)

lemma get_already_awarded_user_ids_ignores_db_read:
  "fst (get_already_awarded_user_ids (r\<lparr>db_read := alias\<rparr>) w)
     = fst (get_already_awarded_user_ids r w)"
  by (simp add: get_already_awarded_user_ids_def badge_eq Let_def split: option.splits)

lemma get_already_awarded_user_ids_default_only:
  "default_db w' = default_db w \<Longrightarrow>
     fst (get_already_awarded_user_ids r w') = fst (get_already_awarded_user_ids r w)"
  by (simp add: get_already_awarded_user_ids_def badge_eq Let_def split: option.splits)

text \<open>
  Claim C4 has both fetches of the diffing step read the database of the configured
  \<^verbatim>\<open>db_read\<close> alias. The fetch of the eligible users does
  (\<open>get_current_user_ids_reads_db_read\<close>); the fetch of the already-awarded users
  does not. With \<^verbatim>\<open>db_read\<close> set to the replica, whose award table is empty while
  the default database holds the award of user 1, \<^verbatim>\<open>get_already_awarded_user_ids\<close>
  returns user 1, the content of the default database, and its log record says the
  identifiers were fetched from the replica.
\<close>

theorem get_already_awarded_user_ids_reads_default:
  "db_read pioneer_recipe = ''replica''
   \<and> Badge_users (dbs replicated_world ''replica'') pioneer = []
   \<and> Badge_users (dbs replicated_world DEFAULT_DB_ALIAS) pioneer = [1]
   \<and> get_already_awarded_user_ids pioneer_recipe replicated_world =
       (Inr [1],
        replicated_world\<lparr>logged :=
          [(DEBUG, ''Badge %s: %d users already awarded (fetched from db '%s')'',
            [AStr ''pioneer'', AInt 1, AStr ''replica''])]\<rparr>)"
  by (simp add: run_defs store_defs)

subsection \<open>The bulk creation of awards\<close>

lemma chunks_Cons:
  "0 < n \<Longrightarrow> l \<noteq> [] \<Longrightarrow> chunks l n = take (nat n) l # chunks (drop (nat n) l) n"
  by (subst chunks.simps) simp

lemma chunks_Nil: "chunks [] n = []"
  by (subst chunks.simps) simp

lemma concat_chunks: "0 < n \<Longrightarrow> concat (chunks l n) = l"
proof (induction l n rule: chunks.induct)
  case (1 l n)
  show ?case
  proof (cases "l = []")
    case True
    then show ?thesis by (simp add: chunks_Nil)
  next
    case False
    have ih: "concat (chunks (drop (nat n) l) n) = drop (nat n) l"
      using "1.IH" False "1.prems" by simp
    have "chunks l n = take (nat n) l # chunks (drop (nat n) l) n"
      using "1.prems" False by (rule chunks_Cons)
    then show ?thesis
      by (simp only: concat.simps ih append_take_drop_id)
  qed
qed

lemma length_chunks: "0 < n \<Longrightarrow> c \<in> set (chunks l n) \<Longrightarrow> c \<noteq> [] \<and> int (length c) \<le> n"
proof (induction l n arbitrary: c rule: chunks.induct)
  case (1 l n)
  show ?case
  proof (cases "l = []")
    case True
    with "1.prems" show ?thesis by (simp add: chunks_Nil)
  next
    case False
    have unfold: "chunks l n = take (nat n) l # chunks (drop (nat n) l) n"
      using "1.prems"(1) False by (rule chunks_Cons)
    from "1.prems"(2) have "c = take (nat n) l \<or> c \<in> set (chunks (drop (nat n) l) n)"
      unfolding unfold by simp
    then show ?thesis
    proof
      assume c: "c = take (nat n) l"
      have "take (nat n) l \<noteq> []"
        using False "1.prems"(1) by simp
      moreover have "int (length (take (nat n) l)) \<le> n"
        using "1.prems"(1) by simp
      ultimately show ?thesis
        unfolding c by simp
    next
      assume "c \<in> set (chunks (drop (nat n) l) n)"
      then show ?thesis
        using "1.IH" False "1.prems"(1) by simp
    qed
  qed
qed

text \<open>
  Building the award objects: with a badge, the list is built when the users come from
  the default alias or no user is found, and the first user raises \<^verbatim>\<open>ValueError\<close>
  otherwise.
\<close>

lemma build_awards_Some:
  "build_awards user_db (Some b) found =
     (if user_db = DEFAULT_DB_ALIAS \<or> found = []
      then Inr (map (\<lambda>u. \<lparr>award_user = u, award_badge = Some b\<rparr>) found)
      else Inl ValueError)"
  by (induction found) (auto simp: Award_init_def)

lemma build_awards_None:
  "build_awards user_db None found =
     Inr (map (\<lambda>u. \<lparr>award_user = u, award_badge = None\<rparr>) found)"
  by (induction found) (simp_all add: Award_init_def)

lemma badge_cong: "dbs w' = dbs w \<Longrightarrow> badge r w' = badge r w"
  by (simp add: badge_def default_db_def)

lemma get_unawarded_user_ids_badge:
  "fst (get_unawarded_user_ids r w) = Inr p \<Longrightarrow> \<exists>b. badge r w = Some b"
  by (simp add: get_unawarded_user_ids_def get_already_awarded_user_ids_def Let_def
      split: option.splits prod.splits sum.splits)

text \<open>Whatever the chunk, the first turn of the loop ends it with an exception.\<close>

lemma save_chunks_Cons:
  assumes "badge r w = Some b"
  shows "save_chunks r cnt d (c # cs) w =
     (if db_read r = DEFAULT_DB_ALIAS
         \<or> filter (\<lambda>u. u \<in> set c) (users (dbs w (db_read r))) = []
      then Inl TypeError else Inl ValueError,
      logger_debug ''Badge %s: creating awards (%d / %d users) -- (db read: %s)''
        [slug_arg r,
         AInt (if d + max_awards_per_create r \<le> cnt then d + max_awards_per_create r else cnt),
         AInt cnt, AStr (db_read r)] w)"
  using assms by (simp add: Let_def bulk_create_awards_def build_awards_Some)

lemma save_chunks_Cons_snd:
  "snd (save_chunks r cnt d (c # cs) w) =
     logger_debug ''Badge %s: creating awards (%d / %d users) -- (db read: %s)''
        [slug_arg r,
         AInt (if d + max_awards_per_create r \<le> cnt then d + max_awards_per_create r else cnt),
         AInt cnt, AStr (db_read r)] w"
  by (cases "badge r w")
    (simp_all add: Let_def bulk_create_awards_def build_awards_Some build_awards_None)

lemma save_chunks_writes_nothing:
  "dbs (snd (save_chunks r cnt d cs w)) = dbs w
   \<and> post_save_sent (snd (save_chunks r cnt d cs w)) = post_save_sent w"
proof (cases cs)
  case Nil
  then show ?thesis by simp
next
  case (Cons c cs')
  show ?thesis
    unfolding Cons save_chunks_Cons_snd by simp
qed

lemma save_award_objects_writes_nothing:
  "dbs (snd (save_award_objects r w)) = dbs w
   \<and> post_save_sent (snd (save_award_objects r w)) = post_save_sent w"
proof (cases "get_unawarded_user_ids r w")
  case (Pair res w1)
  have fr: "dbs w1 = dbs w" "post_save_sent w1 = post_save_sent w"
    using get_unawarded_user_ids_frame [of r w] Pair by simp_all
  show ?thesis
  proof (cases res)
    case (Inl e)
    with Pair fr show ?thesis by (simp add: save_award_objects_def)
  next
    case (Inr p)
    with Pair fr show ?thesis
      by (cases p) (simp add: save_award_objects_def save_chunks_writes_nothing)
  qed
qed

lemma create_awards_writes_nothing:
  "dbs (snd (create_awards r w)) = dbs w
   \<and> post_save_sent (snd (create_awards r w)) = post_save_sent w"
  by (simp add: create_awards_def can_perform_awarding_def save_award_objects_writes_nothing)

text \<open>
  Claim C5 has \<^verbatim>\<open>save_award_objects\<close> raise \<^verbatim>\<open>TypeError\<close> for every nonempty list of
  unawarded identifiers. With the recipe that reads from the replica it does not: the
  unawarded identifiers are 2, 3 and 4, the users 2 and 3 of the first chunk are loaded
  from the replica while the badge comes from the default database, and building the
  first \<^verbatim>\<open>Award\<close> raises \<^verbatim>\<open>ValueError\<close> before \<^verbatim>\<open>_bulk_create_awards\<close> is called.
\<close>

theorem save_award_objects_value_error:
  "fst (get_unawarded_user_ids pioneer_recipe replicated_world) = Inr ([2, 3, 4], 3)
   \<and> db_read pioneer_recipe \<noteq> DEFAULT_DB_ALIAS
   \<and> fst (save_award_objects pioneer_recipe replicated_world) = Inl ValueError"
  by (simp add: run_defs store_defs chunks.simps)

text \<open>
  Claim C5, amended. Whenever \<^verbatim>\<open>get_unawarded_user_ids\<close> returns a nonempty list and
  the chunk size is positive, \<^verbatim>\<open>save_award_objects\<close> raises in the first turn of its
  loop and leaves every database and the signals as they were: no award is inserted. The
  exception is \<^verbatim>\<open>TypeError\<close>, from the call of \<^verbatim>\<open>_bulk_create_awards\<close>, when
  \<^verbatim>\<open>db_read\<close> is the default alias or no user of the first chunk is found on
  \<^verbatim>\<open>db_read\<close>; it is \<^verbatim>\<open>ValueError\<close>, from building the first \<^verbatim>\<open>Award\<close>, otherwise.
  The method \<^verbatim>\<open>_bulk_create_awards\<close> called with any argument raises \<^verbatim>\<open>TypeError\<close>,
  and called with none raises \<^verbatim>\<open>NameError\<close> at the unbound name \<^verbatim>\<open>objects\<close>, each
  time before anything is written.
\<close>

theorem save_award_objects_raises_before_insert:
  assumes "fst (get_unawarded_user_ids r w) = Inr (ids, n)"
    and "ids \<noteq> []"
    and "0 < max_awards_per_create r"
  shows "fst (save_award_objects r w) =
           (if db_read r = DEFAULT_DB_ALIAS
               \<or> filter (\<lambda>u. u \<in> set (take (nat (max_awards_per_create r)) ids))
                    (users (dbs w (db_read r))) = []
            then Inl TypeError else Inl ValueError)
       \<and> dbs (snd (save_award_objects r w)) = dbs w
       \<and> post_save_sent (snd (save_award_objects r w)) = post_save_sent w
       \<and> bulk_create_awards r (objs # others) w' = (Inl TypeError, w')
       \<and> bulk_create_awards r [] w' = (Inl NameError, w')"
proof -
  obtain w1 where g: "get_unawarded_user_ids r w = (Inr (ids, n), w1)"
    using assms(1) by (cases "get_unawarded_user_ids r w") simp
  have fr: "dbs w1 = dbs w" "post_save_sent w1 = post_save_sent w"
    using get_unawarded_user_ids_frame [of r w] g by simp_all
  obtain b where "badge r w = Some b"
    using get_unawarded_user_ids_badge [OF assms(1)] by blast
  then have b: "badge r w1 = Some b"
    using badge_cong [OF fr(1), of r] by simp
  have c: "chunks ids (max_awards_per_create r)
             = take (nat (max_awards_per_create r)) ids
               # chunks (drop (nat (max_awards_per_create r)) ids) (max_awards_per_create r)"
    by (rule chunks_Cons [OF assms(3) assms(2)])
  have s: "save_award_objects r w
             = save_chunks r n 0 (chunks ids (max_awards_per_create r)) w1"
    using g assms(2) by (simp add: save_award_objects_def)
  show ?thesis
    unfolding s c save_chunks_Cons [OF b]
    by (simp add: fr bulk_create_awards_def bulk_create_awards_body_def module_objects_def)
qed

theorem save_award_objects_raises_before_insert_witness:
  "fst (get_unawarded_user_ids primary_recipe replicated_world) = Inr ([2, 3, 4], 3)
   \<and> fst (get_unawarded_user_ids pioneer_recipe replicated_world) = Inr ([2, 3, 4], 3)
   \<and> [2, 3, 4 :: int] \<noteq> []
   \<and> 0 < max_awards_per_create primary_recipe
   \<and> 0 < max_awards_per_create pioneer_recipe
   \<and> fst (save_award_objects primary_recipe replicated_world) = Inl TypeError
   \<and> fst (save_award_objects pioneer_recipe replicated_world) = Inl ValueError
   \<and> dbs (snd (save_award_objects primary_recipe replicated_world)) = dbs replicated_world
   \<and> dbs (snd (save_award_objects pioneer_recipe replicated_world)) = dbs replicated_world
   \<and> post_save_sent (snd (save_award_objects primary_recipe replicated_world)) = []
   \<and> bulk_create_awards primary_recipe [[\<lparr>award_user = 2, award_badge = Some pioneer\<rparr>]]
       replicated_world = (Inl TypeError, replicated_world)
   \<and> bulk_create_awards primary_recipe [] replicated_world = (Inl NameError, replicated_world)"
proof -
  have a: "fst (get_unawarded_user_ids primary_recipe replicated_world) = Inr ([2, 3, 4], 3)"
    by (simp add: run_defs store_defs)
  have a': "fst (get_unawarded_user_ids pioneer_recipe replicated_world) = Inr ([2, 3, 4], 3)"
    by (simp add: run_defs store_defs)
  have b: "[2, 3, 4 :: int] \<noteq> []"
    by simp
  have c: "0 < max_awards_per_create primary_recipe"
    by (simp add: store_defs)
  have c': "0 < max_awards_per_create pioneer_recipe"
    by (simp add: store_defs)
  have d: "post_save_sent replicated_world = []"
    by (simp add: replicated_world_def)
  have e: "db_read primary_recipe = DEFAULT_DB_ALIAS"
    by (simp add: store_defs)
  have e': "\<not> (db_read pioneer_recipe = DEFAULT_DB_ALIAS
      \<or> filter (\<lambda>u. u \<in> set (take (nat (max_awards_per_create pioneer_recipe)) [2, 3, 4]))
           (users (dbs replicated_world (db_read pioneer_recipe))) = [])"
    by (simp add: run_defs store_defs)
  show ?thesis
    using save_award_objects_raises_before_insert [OF a b c,
        of "[\<lparr>award_user = 2, award_badge = Some pioneer\<rparr>]" "[]" replicated_world]
      save_award_objects_raises_before_insert [OF a' b c']
      a a' b c c' d e e'
    by simp
qed

text \<open>
  With a chunk size that is not positive the model of \<^verbatim>\<open>chunks\<close> yields no chunk, the
  loop has no turn and nothing is raised.
\<close>

lemma save_award_objects_no_chunk:
  assumes "fst (get_unawarded_user_ids r w) = Inr (ids, n)"
    and "max_awards_per_create r \<le> 0"
  shows "fst (save_award_objects r w) = Inr ()"
proof -
  obtain w1 where g: "get_unawarded_user_ids r w = (Inr (ids, n), w1)"
    using assms(1) by (cases "get_unawarded_user_ids r w") simp
  have "chunks ids (max_awards_per_create r) = []"
    using assms(2) by (subst chunks.simps) simp
  then show ?thesis
    using g by (simp add: save_award_objects_def)
qed

text \<open>
  Claim C6 has \<^verbatim>\<open>save_award_objects\<close> cut the unawarded identifiers into consecutive
  chunks of at most \<^verbatim>\<open>max_awards_per_create\<close> and insert each chunk in one batch. The
  cutting is as claimed (\<open>concat_chunks\<close>, \<open>length_chunks\<close>); the inserting is not.
  With the recipe that reads from the default alias the unawarded identifiers are 2, 3
  and 4 and the chunks are \<open>[2, 3]\<close> and \<open>[4]\<close>, but the run ends in \<^verbatim>\<open>TypeError\<close>
  at the call of \<^verbatim>\<open>_bulk_create_awards\<close> for the first chunk, only one chunk has been
  announced in the log, and the award table is what it was.
\<close>

theorem save_award_objects_first_chunk:
  "db_read primary_recipe = DEFAULT_DB_ALIAS
   \<and> fst (get_unawarded_user_ids primary_recipe replicated_world) = Inr ([2, 3, 4], 3)
   \<and> chunks [2, 3, 4 :: int] (max_awards_per_create primary_recipe) = [[2, 3], [4]]
   \<and> build_awards (db_read primary_recipe) (badge primary_recipe replicated_world) [2, 3]
       = Inr [\<lparr>award_user = 2, award_badge = Some pioneer\<rparr>,
              \<lparr>award_user = 3, award_badge = Some pioneer\<rparr>]
   \<and> fst (save_award_objects primary_recipe replicated_world) = Inl TypeError
   \<and> length (logged (snd (save_award_objects primary_recipe replicated_world))) = 4
   \<and> awards (default_db (snd (save_award_objects primary_recipe replicated_world)))
       = awards (default_db replicated_world)"
  by (simp add: run_defs store_defs chunks.simps)




subsection \<open>The awarding process\<close>

text \<open>
  Claim C3 has a second run of \<^verbatim>\<open>create_awards\<close> find every eligible user already
  awarded by the first run, so that its unawarded list is empty. With the recipe that
  reads from the default alias the first run raises \<^verbatim>\<open>TypeError\<close> at the call of
  \<^verbatim>\<open>_bulk_create_awards\<close> and leaves the award table with the one award it had; the
  second run starts from the same unawarded identifiers 2, 3 and 4 and raises
  \<^verbatim>\<open>TypeError\<close> again. No run creates an award (\<open>create_awards_writes_nothing\<close>).
\<close>

theorem create_awards_twice:
  "db_read primary_recipe = DEFAULT_DB_ALIAS
   \<and> fst (create_awards primary_recipe replicated_world) = Inl TypeError
   \<and> awards (default_db (snd (create_awards primary_recipe replicated_world)))
       = [(1, ''pioneer'')]
   \<and> fst (get_unawarded_user_ids primary_recipe
        (snd (create_awards primary_recipe replicated_world))) = Inr ([2, 3, 4], 3)
   \<and> fst (create_awards primary_recipe
        (snd (create_awards primary_recipe replicated_world))) = Inl TypeError"
  by (simp add: run_defs store_defs chunks.simps)

text \<open>
  Claim C7. When \<^verbatim>\<open>user_ids\<close> is undefined, or is a query that yields no user, or the
  badge is not in the database, \<^verbatim>\<open>can_perform_awarding\<close> returns \<^verbatim>\<open>False\<close> and
  \<^verbatim>\<open>create_awards\<close> returns normally, having written one debug record to the log and
  nothing to any database, and having sent no signal.
\<close>

theorem create_awards_short_circuit:
  assumes "user_ids r = None \<or> (\<exists>q. user_ids r = Some q \<and> q (default_db w) = [])
           \<or> badge r w = None"
  shows "\<not> fst (can_perform_awarding r w)
       \<and> fst (create_awards r w) = Inr ()
       \<and> dbs (snd (create_awards r w)) = dbs w
       \<and> post_save_sent (snd (create_awards r w)) = post_save_sent w
       \<and> (\<exists>fmt. logged (snd (create_awards r w)) = logged w @ [(DEBUG, fmt, [slug_arg r])])"
  using assms
  by (auto simp: create_awards_def can_perform_awarding_def user_ids_truth_def)

theorem create_awards_short_circuit_witness:
  "user_ids base_recipe = None
   \<and> \<not> fst (can_perform_awarding base_recipe fresh_world)
   \<and> create_awards base_recipe fresh_world =
       (Inr (),
        fresh_world\<lparr>logged :=
          [(DEBUG, ''Badge %s: no users to check (empty user_ids property)'', [ANone])]\<rparr>)
   \<and> user_ids pioneer_recipe = Some users \<and> users (default_db fresh_world) \<noteq> []
   \<and> badge pioneer_recipe fresh_world = None
   \<and> \<not> fst (can_perform_awarding pioneer_recipe fresh_world)
   \<and> create_awards pioneer_recipe fresh_world =
       (Inr (),
        fresh_world\<lparr>logged :=
          [(DEBUG, ''Badge %s: does not exist in the database (run badgify_sync badges)'',
            [AStr ''pioneer''])]\<rparr>)"
proof -
  have a: "user_ids base_recipe = None"
    by (simp add: base_recipe_def)
  have b: "badge pioneer_recipe fresh_world = None"
    by (simp add: run_defs store_defs)
  have c: "user_ids pioneer_recipe = Some users \<and> users (default_db fresh_world) \<noteq> []"
    by (simp add: run_defs store_defs)
  have d: "create_awards base_recipe fresh_world =
       (Inr (),
        fresh_world\<lparr>logged :=
          [(DEBUG, ''Badge %s: no users to check (empty user_ids property)'', [ANone])]\<rparr>)"
    by (simp add: run_defs store_defs)
  have e: "create_awards pioneer_recipe fresh_world =
       (Inr (),
        fresh_world\<lparr>logged :=
          [(DEBUG, ''Badge %s: does not exist in the database (run badgify_sync badges)'',
            [AStr ''pioneer''])]\<rparr>)"
    by (simp add: run_defs store_defs)
  from a have a': "user_ids base_recipe = None
      \<or> (\<exists>q. user_ids base_recipe = Some q \<and> q (default_db fresh_world) = [])
      \<or> badge base_recipe fresh_world = None"
    by simp
  from b have b': "user_ids pioneer_recipe = None
      \<or> (\<exists>q. user_ids pioneer_recipe = Some q \<and> q (default_db fresh_world) = [])
      \<or> badge pioneer_recipe fresh_world = None"
    by simp
  show ?thesis
    using create_awards_short_circuit [OF a'] create_awards_short_circuit [OF b'] a b c d e
    by simp
qed

subsection \<open>The badge and its users count\<close>

lemma badge_kwargs_name: "badge_kwargs r img ''name'' = Some (name r)"
  by (simp add: badge_kwargs_def getattr_def split: option.splits)

lemma badge_kwargs_image: "badge_kwargs r img ''image'' = Some (Some img)"
  by (simp add: badge_kwargs_def getattr_def split: option.splits)

lemma badge_kwargs_slug:
  "badge_kwargs r img ''slug'' = (case slug r of None \<Rightarrow> None | Some s \<Rightarrow> Some (Some s))"
  by (simp add: badge_kwargs_def getattr_def split: option.splits)

lemma badge_kwargs_description:
  "badge_kwargs r img ''description''
     = (case description r of None \<Rightarrow> None | Some d \<Rightarrow> Some (Some d))"
  by (simp add: badge_kwargs_def getattr_def split: option.splits)

lemma Badge_objects_create_taken:
  assumes "slug r = Some sl" and "badges db sl \<noteq> None"
  shows "Badge_objects_create (badge_kwargs r img) db = Inl IntegrityError"
  using assms
  by (simp add: Badge_objects_create_def badge_kwargs_name badge_kwargs_image
      badge_kwargs_slug Let_def split: option.splits)

lemma Badge_objects_create_free:
  assumes "slug r = Some sl" and "name r = Some nm" and "badges db sl = None"
  shows "Badge_objects_create (badge_kwargs r img) db =
           Inr (\<lparr>badge_name = nm, badge_slug = sl, badge_description = description r,
                 badge_image = img, users_count = 0\<rparr>,
                db\<lparr>badges := (badges db)(sl \<mapsto>
                   \<lparr>badge_name = nm, badge_slug = sl, badge_description = description r,
                    badge_image = img, users_count = 0\<rparr>)\<rparr>)"
  using assms
  by (simp add: Badge_objects_create_def badge_kwargs_name badge_kwargs_image
      badge_kwargs_slug badge_kwargs_description Let_def split: option.splits)


text \<open>
  Claim C8 has \<^verbatim>\<open>create_badge\<close> return the existing badge when a concurrent creation
  makes its own insert violate the uniqueness of the slug. It does not: the badge table
  is empty at the fetch, the rival process inserts the badge, the insert of the recipe
  fails, and the triple returned is \<^verbatim>\<open>(None, False, True)\<close>, while the badge of the
  rival is in the database.
\<close>

theorem create_badge_race_returns_none:
  "badge pioneer_recipe fresh_world = None
   \<and> fst (create_badge rival pioneer_recipe fresh_world) = Inr (None, False, True)
   \<and> badge pioneer_recipe (snd (create_badge rival pioneer_recipe fresh_world)) = Some pioneer"
  by (simp add: run_defs store_defs)

text \<open>
  Claim C8, amended. For a recipe with a slug and an image: when the badge of the slug
  exists, \<^verbatim>\<open>create_badge\<close> returns it with \<^verbatim>\<open>created\<close> and \<^verbatim>\<open>failed\<close> false; when
  it does not exist at the fetch but a concurrent creation has taken the slug by the time
  of the insert, the call raises nothing, logs the \<^verbatim>\<open>IntegrityError\<close> and returns no
  badge, with \<^verbatim>\<open>created\<close> false and \<^verbatim>\<open>failed\<close> true; and when the slug is still free
  and the recipe has a name, the badge is inserted and returned with \<^verbatim>\<open>created\<close> true.
\<close>

theorem create_badge_fetch_or_create:
  assumes "slug r = Some sl" and "image_property r = Some img"
  shows "(badge r w = Some b \<longrightarrow>
            create_badge concurrent r w =
              (Inr (Some b, False, False),
               logger_debug ''Badge %s: already created'' [AStr (badge_slug b)] w))
       \<and> (badge r w = None \<and> badges (concurrent (default_db w)) sl \<noteq> None \<longrightarrow>
            create_badge concurrent r w =
              (Inr (None, False, True),
               logger_debug ''Badge %s: IntegrityError'' [AStr sl]
                 (write_default (concurrent (default_db w)) w)))
       \<and> (badge r w = None \<and> badges (concurrent (default_db w)) sl = None
            \<and> name r = Some nm \<and>
            new = \<lparr>badge_name = nm, badge_slug = sl, badge_description = description r,
                   badge_image = img, users_count = 0\<rparr> \<longrightarrow>
            fst (create_badge concurrent r w) = Inr (Some new, True, False)
          \<and> badge r (snd (create_badge concurrent r w)) = Some new)"
  using assms
  by (auto simp: create_badge_def Let_def Badge_objects_create_taken
      Badge_objects_create_free slug_arg_def badge_eq write_default_def default_db_def)

theorem create_badge_fetch_or_create_witness:
  "slug pioneer_recipe = Some ''pioneer'' \<and> image_property pioneer_recipe = Some ''pioneer.png''
   \<and> name pioneer_recipe = Some ''Pioneer''
   \<and> badge pioneer_recipe replicated_world = Some pioneer
   \<and> fst (create_badge id pioneer_recipe replicated_world) = Inr (Some pioneer, False, False)
   \<and> badge pioneer_recipe fresh_world = None
   \<and> badges (rival (default_db fresh_world)) ''pioneer'' \<noteq> None
   \<and> fst (create_badge rival pioneer_recipe fresh_world) = Inr (None, False, True)
   \<and> badges (id (default_db fresh_world)) ''pioneer'' = None
   \<and> fst (create_badge id pioneer_recipe fresh_world) = Inr (Some pioneer, True, False)
   \<and> badge pioneer_recipe (snd (create_badge id pioneer_recipe fresh_world)) = Some pioneer"
proof -
  have a: "slug pioneer_recipe = Some ''pioneer''"
    and b: "image_property pioneer_recipe = Some ''pioneer.png''"
    and c: "name pioneer_recipe = Some ''Pioneer''"
    and d: "description pioneer_recipe = None"
    by (simp_all add: pioneer_recipe_def)
  have e: "badge pioneer_recipe replicated_world = Some pioneer"
    by (simp add: run_defs store_defs)
  have f: "badge pioneer_recipe fresh_world = None"
    by (simp add: run_defs store_defs)
  have g: "badges (rival (default_db fresh_world)) ''pioneer'' \<noteq> None"
    by (simp add: run_defs store_defs)
  have h: "badges (id (default_db fresh_world)) ''pioneer'' = None"
    by (simp add: run_defs store_defs)
  have i: "pioneer = \<lparr>badge_name = ''Pioneer'', badge_slug = ''pioneer'',
             badge_description = description pioneer_recipe,
             badge_image = ''pioneer.png'', users_count = 0\<rparr>"
    by (simp add: pioneer_def d)
  show ?thesis
    using create_badge_fetch_or_create [OF a b, of replicated_world pioneer id]
      create_badge_fetch_or_create [OF a b, of fresh_world _ rival]
      create_badge_fetch_or_create [OF a b, of fresh_world _ id "''Pioneer''" pioneer]
      a b c e f g h i
    by simp
qed

lemma Badge_save_dbs:
  "dbs (Badge_save b w) =
     (dbs w)(DEFAULT_DB_ALIAS :=
        (default_db w)\<lparr>badges := (badges (default_db w))(badge_slug b \<mapsto> b)\<rparr>)"
  by (simp add: Badge_save_def write_default_def)

text \<open>
  Claim C9. For a badge that exists, with \<open>live\<close> the number of its awarded users:
  when the stored \<^verbatim>\<open>users_count\<close> equals \<open>live\<close>, \<^verbatim>\<open>update_badge_users_count\<close>
  returns the badge with \<^verbatim>\<open>updated\<close> false and every database is as it was; when they
  differ, it returns the badge with \<^verbatim>\<open>users_count\<close> set to \<open>live\<close> and \<^verbatim>\<open>updated\<close>
  true, and the only change to the databases is that the row of the badge in the default
  database now is that badge.
\<close>

theorem update_badge_users_count_on_mismatch_only:
  assumes "badge r w = Some b"
    and "live = int (length (Badge_users (default_db w) b))"
  shows "(users_count b = live \<longrightarrow>
            fst (update_badge_users_count r w) = (BadgeObject b, False)
          \<and> dbs (snd (update_badge_users_count r w)) = dbs w)
       \<and> (users_count b \<noteq> live \<longrightarrow>
            fst (update_badge_users_count r w) = (BadgeObject (b\<lparr>users_count := live\<rparr>), True)
          \<and> dbs (snd (update_badge_users_count r w)) =
              (dbs w)(DEFAULT_DB_ALIAS :=
                 (default_db w)\<lparr>badges :=
                    (badges (default_db w))(badge_slug b \<mapsto> b\<lparr>users_count := live\<rparr>)\<rparr>))"
  using assms
  by (simp add: update_badge_users_count_def Let_def Badge_save_dbs)

theorem update_badge_users_count_on_mismatch_only_witness:
  "badge pioneer_recipe replicated_world = Some pioneer
   \<and> users_count pioneer = 0
   \<and> int (length (Badge_users (default_db replicated_world) pioneer)) = 1
   \<and> fst (update_badge_users_count pioneer_recipe replicated_world)
       = (BadgeObject (pioneer\<lparr>users_count := 1\<rparr>), True)
   \<and> badge pioneer_recipe synced_world = Some (pioneer\<lparr>users_count := 1\<rparr>)
   \<and> int (length (Badge_users (default_db synced_world) (pioneer\<lparr>users_count := 1\<rparr>))) = 1
   \<and> fst (update_badge_users_count pioneer_recipe synced_world)
       = (BadgeObject (pioneer\<lparr>users_count := 1\<rparr>), False)
   \<and> dbs (snd (update_badge_users_count pioneer_recipe synced_world)) = dbs synced_world"
proof -
  have a: "badge pioneer_recipe replicated_world = Some pioneer"
    by (simp add: run_defs store_defs)
  have b: "1 = int (length (Badge_users (default_db replicated_world) pioneer))"
    by (simp add: run_defs store_defs)
  have c: "users_count pioneer = 0"
    by (simp add: pioneer_def)
  have d: "badge pioneer_recipe synced_world = Some (pioneer\<lparr>users_count := 1\<rparr>)"
    by (simp add: run_defs store_defs)
  have e: "1 = int (length (Badge_users (default_db synced_world) (pioneer\<lparr>users_count := 1\<rparr>)))"
    by (simp add: run_defs store_defs)
  show ?thesis
    using update_badge_users_count_on_mismatch_only [OF a b]
      update_badge_users_count_on_mismatch_only [OF d e] a b c d e
    by simp
qed

text \<open>
  Claim C10. When the badge does not exist, \<^verbatim>\<open>update_badge_users_count\<close> writes to no
  database and returns the slug attribute of the recipe, not a badge, paired with
  \<^verbatim>\<open>False\<close>; when the badge exists, the first component of the pair is a badge object.
\<close>

theorem update_badge_users_count_return:
  "(badge r w = None \<longrightarrow>
      fst (update_badge_users_count r w) = (SlugValue (slug r), False)
    \<and> dbs (snd (update_badge_users_count r w)) = dbs w)
   \<and> (badge r w \<noteq> None \<longrightarrow>
      (\<exists>b updated. fst (update_badge_users_count r w) = (BadgeObject b, updated)))"
  by (auto simp: update_badge_users_count_def Let_def)

theorem update_badge_users_count_return_witness:
  "badge pioneer_recipe fresh_world = None
   \<and> fst (update_badge_users_count pioneer_recipe fresh_world)
       = (SlugValue (Some ''pioneer''), False)
   \<and> dbs (snd (update_badge_users_count pioneer_recipe fresh_world)) = dbs fresh_world
   \<and> badge pioneer_recipe replicated_world \<noteq> None
   \<and> (\<exists>b updated. fst (update_badge_users_count pioneer_recipe replicated_world)
         = (BadgeObject b, updated))"
proof -
  have a: "badge pioneer_recipe fresh_world = None"
    by (simp add: run_defs store_defs)
  have b: "badge pioneer_recipe replicated_world \<noteq> None"
    by (simp add: run_defs store_defs)
  have c: "slug pioneer_recipe = Some ''pioneer''"
    by (simp add: pioneer_recipe_def)
  show ?thesis
    using update_badge_users_count_return [of pioneer_recipe fresh_world]
      update_badge_users_count_return [of pioneer_recipe replicated_world] a b c
    by simp
qed

subsection \<open>Integrity errors\<close>



end
